theory Spec2Isabelle
  imports Complex_Main "HOL-Library.Word"
begin

section \<open>The post-processing of the dumbbell experiment (NS3/dumbbell-topology.cpp)\<close>

text \<open>
  The program runs five TCP experiments on three dumbbell topologies and then turns the
  flow monitor's statistics into a CSV report. This theory embeds the part that runs after
  the simulation: \<open>CalculateStats\<close>, \<open>ProcessFlowMonitorResults\<close>, \<open>WriteResultsCsv\<close>
  and the loop of \<open>main\<close> that builds the experiment windows.

  Conventions of the embedding:
  \<^item> a \<open>double\<close> is read as the real number it denotes, and the arithmetic on doubles as
    exact arithmetic on \<open>real\<close>; rounding, infinities and NaN are outside the model. The
    one place where the program can divide by zero is named where it occurs
    (\<open>tputMbps\<close>);
  \<^item> \<open>uint64_t\<close> and IPv4 addresses are words of 64 and 32 bits;
  \<^item> a \<open>vector\<close> is a list; \<open>v[i]\<close> beyond the size is undefined behaviour in C++ and
    is the result \<open>Inl OutOfRange\<close> here, so that every run the theorems speak about
    stays inside its vectors;
  \<^item> the output file is the sequence of characters sent to the stream.
\<close>

subsection \<open>Data\<close>

text \<open>\<open>struct ExperimentData\<close> (lines 22-29): one bucket of samples and its statistics.\<close>

record ExperimentData =
  throughputs :: "real list"
  flowTimes :: "real list"
  meanThroughput :: real
  stddevThroughput :: real
  meanFlowTime :: real
  stddevFlowTime :: real

text \<open>
  The fields of \<open>FlowMonitor::FlowStats\<close> that the program reads. The three times are
  held as the value of \<open>GetSeconds()\<close>.
\<close>

record FlowStats =
  rxBytes :: "64 word"
  timeFirstTxPacket :: real
  timeLastTxPacket :: real
  timeLastRxPacket :: real

text \<open>Of \<open>Ipv4FlowClassifier::FiveTuple\<close> the program reads the source address only.\<close>

record FiveTuple =
  sourceAddress :: "32 word"
  destinationAddress :: "32 word"

text \<open>
  Of \<open>PointToPointDumbbellHelper\<close> the program reads \<open>GetLeftIpv4Address(i)\<close>, the
  address of the i-th left leaf.
\<close>

record Dumbbell =
  GetLeftIpv4Address :: "nat \<Rightarrow> 32 word"

datatype error = OutOfRange

text \<open>\<open>v[i]\<close> on a vector.\<close>

definition vec_at :: "'a list \<Rightarrow> nat \<Rightarrow> error + 'a" where
  "vec_at v i = (if i < length v then Inr (v ! i) else Inl OutOfRange)"

subsection \<open>CalculateStats (lines 32-53)\<close>

text \<open>
  The two range-for loops accumulate into \<open>mean\<close> and \<open>stddev\<close> from 0.0, from the
  first element to the last; \<open>pow(val - mean, 2)\<close> is the square.
\<close>

definition CalculateStats :: "real list \<Rightarrow> real \<times> real" where
  "CalculateStats values =
     (if values = [] then (0, 0)
      else
        let mean = foldl (\<lambda>mean val. mean + val) 0 values;
            mean = mean / real (length values);
            stddev = foldl (\<lambda>stddev val. stddev + (val - mean) ^ 2) 0 values;
            stddev = sqrt (stddev / real (length values))
        in (mean, stddev))"

text \<open>
  The statistics as the specification words them: the mean is the sum over the count, the
  deviation is the root of the mean squared distance to the mean (denominator N).
\<close>

definition spec_mean :: "real list \<Rightarrow> real" where
  "spec_mean values = sum_list values / real (length values)"

definition spec_stddev :: "real list \<Rightarrow> real" where
  "spec_stddev values =
     sqrt (sum_list (map (\<lambda>v. (v - spec_mean values) ^ 2) values) / real (length values))"

subsection \<open>ProcessFlowMonitorResults (lines 180-247)\<close>

text \<open>
  The two measurements of a flow (lines 195-197). \<open>rxBytes * 8.0\<close> is a product of
  doubles. Where the last packet is received at the instant the first one is sent, the
  C++ quotient is infinite; the quotient of HOL is 0 there.
\<close>

definition tputMbps :: "FlowStats \<Rightarrow> real" where
  "tputMbps st =
     (real (unat (rxBytes st)) * 8) / (timeLastRxPacket st - timeFirstTxPacket st) / 1000000"

definition fct :: "FlowStats \<Rightarrow> real" where
  "fct st = timeLastTxPacket st - timeFirstTxPacket st"

text \<open>
  The pair of \<open>push_back\<close> calls that every assigning branch makes on one element of
  \<open>expData\<close>.
\<close>

definition add_sample :: "ExperimentData \<Rightarrow> real \<Rightarrow> real \<Rightarrow> ExperimentData" where
  "add_sample d tput fc = d\<lparr>throughputs := throughputs d @ [tput], flowTimes := flowTimes d @ [fc]\<rparr>"

definition push_sample ::
  "ExperimentData list \<Rightarrow> nat \<Rightarrow> real \<Rightarrow> real \<Rightarrow> error + ExperimentData list" where
  "push_sample expData b tput fc =
     (case vec_at expData b of
        Inl e \<Rightarrow> Inl e
      | Inr d \<Rightarrow> Inr (expData[b := add_sample d tput fc]))"

text \<open>
  The chain of conditionals on \<open>expIdx\<close> (lines 207-235). \<open>||\<close> and \<open>&&\<close> evaluate
  their right operand only when needed, so \<open>dumbbells[0]\<close> is not read for experiment 0,
  nor \<open>dumbbells[1]\<close> for experiment 2.
\<close>

definition assign_flow ::
  "Dumbbell list \<Rightarrow> FiveTuple \<Rightarrow> real \<Rightarrow> real \<Rightarrow> nat \<Rightarrow> ExperimentData list
     \<Rightarrow> error + ExperimentData list" where
  "assign_flow dumbbells tuple tput fc expIdx expData =
     (if expIdx \<le> 1 then
        (if expIdx = 0 then push_sample expData (expIdx * 2) tput fc
         else case vec_at dumbbells 0 of
           Inl e \<Rightarrow> Inl e
         | Inr d \<Rightarrow>
             if sourceAddress tuple = GetLeftIpv4Address d 0
               then push_sample expData (expIdx * 2) tput fc
             else if expIdx = 1 \<and> sourceAddress tuple = GetLeftIpv4Address d 1
               then push_sample expData (expIdx * 2 + 1) tput fc
             else Inr expData)
      else if expIdx \<le> 3 then
        (if expIdx = 2 then push_sample expData (expIdx * 2) tput fc
         else case vec_at dumbbells 1 of
           Inl e \<Rightarrow> Inl e
         | Inr d \<Rightarrow>
             if sourceAddress tuple = GetLeftIpv4Address d 0
               then push_sample expData (expIdx * 2) tput fc
             else if expIdx = 3 \<and> sourceAddress tuple = GetLeftIpv4Address d 1
               then push_sample expData (expIdx * 2 + 1) tput fc
             else Inr expData)
      else if expIdx = 4 then
        (case vec_at dumbbells 2 of
           Inl e \<Rightarrow> Inl e
         | Inr d \<Rightarrow>
             if sourceAddress tuple = GetLeftIpv4Address d 0
               then push_sample expData (expIdx * 2) tput fc
             else if sourceAddress tuple = GetLeftIpv4Address d 1
               then push_sample expData (expIdx * 2 + 1) tput fc
             else Inr expData)
      else Inr expData)"

text \<open>
  The loop over \<open>expIdx\<close> (lines 201-238): the first window that holds \<open>startTime\<close>
  decides, and \<open>break\<close> ends the search.
\<close>

function exp_loop ::
  "Dumbbell list \<Rightarrow> (real \<times> real) list \<Rightarrow> FiveTuple \<Rightarrow> real \<Rightarrow> real \<Rightarrow> real \<Rightarrow> nat
     \<Rightarrow> ExperimentData list \<Rightarrow> error + ExperimentData list" where
  "exp_loop dumbbells expTimings tuple tput fc startTime expIdx expData =
     (if expIdx < length expTimings then
        (if startTime \<ge> fst (expTimings ! expIdx) \<and> startTime < snd (expTimings ! expIdx)
           then assign_flow dumbbells tuple tput fc expIdx expData
         else exp_loop dumbbells expTimings tuple tput fc startTime (expIdx + 1) expData)
      else Inr expData)"
  by pat_completeness auto
termination
  by (relation "measure (\<lambda>(dumbbells, expTimings, tuple, tput, fc, startTime, expIdx, expData).
        length expTimings - expIdx)") auto

declare exp_loop.simps [simp del]

text \<open>The body of the loop over the flows (lines 191-239).\<close>

definition process_flow ::
  "Dumbbell list \<Rightarrow> (real \<times> real) list \<Rightarrow> FiveTuple \<times> FlowStats \<Rightarrow> ExperimentData list
     \<Rightarrow> error + ExperimentData list" where
  "process_flow dumbbells expTimings flow expData =
     (if rxBytes (snd flow) > 1000000 then
        exp_loop dumbbells expTimings (fst flow) (tputMbps (snd flow)) (fct (snd flow))
          (timeFirstTxPacket (snd flow)) 0 expData
      else Inr expData)"

text \<open>
  The loop over the flows, in the order of the monitor's map; each flow comes with the
  five-tuple the classifier finds for it.
\<close>

fun flows_loop ::
  "Dumbbell list \<Rightarrow> (real \<times> real) list \<Rightarrow> (FiveTuple \<times> FlowStats) list \<Rightarrow> ExperimentData list
     \<Rightarrow> error + ExperimentData list" where
  "flows_loop dumbbells expTimings [] expData = Inr expData"
| "flows_loop dumbbells expTimings (flow # flows) expData =
     (case process_flow dumbbells expTimings flow expData of
        Inl e \<Rightarrow> Inl e
      | Inr expData' \<Rightarrow> flows_loop dumbbells expTimings flows expData')"

text \<open>The body of the last loop (lines 243-246).\<close>

definition update_stats :: "ExperimentData \<Rightarrow> ExperimentData" where
  "update_stats data =
     (let data = data\<lparr>meanThroughput := fst (CalculateStats (throughputs data)),
                       stddevThroughput := snd (CalculateStats (throughputs data))\<rparr>
      in data\<lparr>meanFlowTime := fst (CalculateStats (flowTimes data)),
               stddevFlowTime := snd (CalculateStats (flowTimes data))\<rparr>)"

definition ProcessFlowMonitorResults ::
  "Dumbbell list \<Rightarrow> (real \<times> real) list \<Rightarrow> (FiveTuple \<times> FlowStats) list \<Rightarrow> ExperimentData list
     \<Rightarrow> error + ExperimentData list" where
  "ProcessFlowMonitorResults dumbbells expTimings flows expData =
     (case flows_loop dumbbells expTimings flows expData of
        Inl e \<Rightarrow> Inl e
      | Inr expData' \<Rightarrow> Inr (map update_stats expData'))"

subsection \<open>The schedule and the store of main (lines 330-341, 388)\<close>

text \<open>
  The loop that fills \<open>expTimings\<close>: the first argument counts the iterations left, the
  second is \<open>expStart\<close>. The loop runs five times from \<open>timeOffset\<close>, which is 1.0
  in main and a parameter here.
\<close>

fun expTimings_loop :: "nat \<Rightarrow> real \<Rightarrow> (real \<times> real) list \<Rightarrow> (real \<times> real) list" where
  "expTimings_loop 0 expStart expTimings = expTimings"
| "expTimings_loop (Suc n) expStart expTimings =
     (let expEnd = expStart + 30
      in expTimings_loop n (expEnd + 1) (expTimings @ [(expStart, expEnd)]))"

definition main_expTimings :: "real \<Rightarrow> (real \<times> real) list" where
  "main_expTimings timeOffset = expTimings_loop 5 timeOffset []"

text \<open>\<open>vector<ExperimentData> experimentData(10)\<close>: ten value-initialised buckets.\<close>

definition experimentData_init :: "ExperimentData list" where
  "experimentData_init =
     replicate 10 \<lparr>throughputs = [], flowTimes = [], meanThroughput = 0, stddevThroughput = 0,
                   meanFlowTime = 0, stddevFlowTime = 0\<rparr>"

text \<open>
  A flow's start time lies in a window when it is in the half-open interval; windows are
  apart when none begins before another one ends.
\<close>

definition in_window :: "real \<times> real \<Rightarrow> real \<Rightarrow> bool" where
  "in_window w t \<longleftrightarrow> t \<ge> fst w \<and> t < snd w"

fun windows_apart :: "(real \<times> real) list \<Rightarrow> bool" where
  "windows_apart [] = True"
| "windows_apart (w # ws) = (list_all (\<lambda>v. snd w \<le> fst v \<or> snd v \<le> fst w) ws \<and> windows_apart ws)"

subsection \<open>WriteResultsCsv (lines 250-317)\<close>

text \<open>
  What \<open>operator<<\<close> sends to the stream: an \<open>int\<close> in decimal, \<open>endl\<close> as a line
  feed. The text of a \<open>double\<close> is the stream's default format, which belongs to the
  C++ library; the writer takes it as the parameter \<open>fmt\<close>.
\<close>

definition newline :: char where
  "newline = CHR 0x0A"

definition digit_char :: "nat \<Rightarrow> char" where
  "digit_char n = ''0123456789'' ! (n mod 10)"

fun show_nat :: "nat \<Rightarrow> string" where
  "show_nat n = (if n < 10 then [digit_char n] else show_nat (n div 10) @ [digit_char n])"

declare show_nat.simps [simp del]

text \<open>
  The stream's default format prints a whole number below \<open>10^6\<close> by its digits alone
  (\<open>80.0\<close> as \<open>80\<close>). \<open>fmt_whole\<close> is that format on the whole numbers from 0 to
  999999, for evaluating rows at such values; it is not read anywhere else.
\<close>

definition fmt_whole :: "real \<Rightarrow> string" where
  "fmt_whole x = show_nat (nat \<lfloor>x\<rfloor>)"

text \<open>\<open>(int)v.size()\<close>: the size cut to 32 bits and read as a signed number.\<close>

definition int_of_size :: "nat \<Rightarrow> int" where
  "int_of_size n = sint (word_of_nat n :: 32 word)"

text \<open>
  The loops \<open>for (int i = 0; i < min(3, (int)v.size()); i++) csvFile << v[i] << ","\<close>;
  \<open>n\<close> is the bound.
\<close>

function write_samples ::
  "(real \<Rightarrow> string) \<Rightarrow> real list \<Rightarrow> int \<Rightarrow> int \<Rightarrow> string \<Rightarrow> error + string" where
  "write_samples fmt v i n out =
     (if i < n then
        (case vec_at v (nat i) of
           Inl e \<Rightarrow> Inl e
         | Inr x \<Rightarrow> write_samples fmt v (i + 1) n (out @ fmt x @ '',''))
      else Inr out)"
  by pat_completeness auto
termination
  by (relation "measure (\<lambda>(fmt, v, i, n, out). nat (n - i))") auto

declare write_samples.simps [simp del]

text \<open>The body of the first loop over \<open>exp\<close> (lines 259-283): one throughput row.\<close>

definition throughput_row ::
  "(real \<Rightarrow> string) \<Rightarrow> ExperimentData list \<Rightarrow> nat \<Rightarrow> string \<Rightarrow> error + string" where
  "throughput_row fmt expData expNo out =
     (let out = out @ ''th_'' @ show_nat (expNo + 1) @ '','';
          firstFlowIdx = expNo * 2;
          secondFlowIdx = expNo * 2 + 1
      in case vec_at expData firstFlowIdx of
           Inl e \<Rightarrow> Inl e
         | Inr first \<Rightarrow>
      (case write_samples fmt (throughputs first) 0
              (min 3 (int_of_size (length (throughputs first)))) out of
           Inl e \<Rightarrow> Inl e
         | Inr out \<Rightarrow>
      let out = out @ fmt (meanThroughput first) @ '','' @ fmt (stddevThroughput first)
                  @ '',Mbps,''
      in if expNo = 0 \<or> expNo = 2 then Inr (out @ [newline])
         else
           (case vec_at expData secondFlowIdx of
              Inl e \<Rightarrow> Inl e
            | Inr second \<Rightarrow>
           (case write_samples fmt (throughputs second) 0
                   (min 3 (int_of_size (length (throughputs second)))) out of
              Inl e \<Rightarrow> Inl e
            | Inr out \<Rightarrow>
                Inr (out @ fmt (meanThroughput second) @ '','' @ fmt (stddevThroughput second)
                       @ '',Mbps'' @ [newline])))))"

text \<open>The body of the second loop over \<open>exp\<close> (lines 288-313): one completion-time row.\<close>

definition fct_row ::
  "(real \<Rightarrow> string) \<Rightarrow> ExperimentData list \<Rightarrow> nat \<Rightarrow> string \<Rightarrow> error + string" where
  "fct_row fmt expData expNo out =
     (let out = out @ ''afct_'' @ show_nat (expNo + 1) @ '','';
          firstFlowIdx = expNo * 2;
          secondFlowIdx = expNo * 2 + 1
      in case vec_at expData firstFlowIdx of
           Inl e \<Rightarrow> Inl e
         | Inr first \<Rightarrow>
      (case write_samples fmt (flowTimes first) 0
              (min 3 (int_of_size (length (flowTimes first)))) out of
           Inl e \<Rightarrow> Inl e
         | Inr out \<Rightarrow>
      let out = out @ fmt (meanFlowTime first) @ '','' @ fmt (stddevFlowTime first) @ '',sec''
      in if expNo = 0 \<or> expNo = 2 then Inr (out @ [newline])
         else
           let out = out @ '',''
           in (case vec_at expData secondFlowIdx of
                 Inl e \<Rightarrow> Inl e
               | Inr second \<Rightarrow>
              (case write_samples fmt (flowTimes second) 0
                      (min 3 (int_of_size (length (flowTimes second)))) out of
                 Inl e \<Rightarrow> Inl e
               | Inr out \<Rightarrow>
                   Inr (out @ fmt (meanFlowTime second) @ '','' @ fmt (stddevFlowTime second)
                          @ '',sec'' @ [newline])))))"

text \<open>The two loops \<open>for (int exp = 0; exp < 5; exp++)\<close>, over either kind of row.\<close>

function rows_loop ::
  "(nat \<Rightarrow> string \<Rightarrow> error + string) \<Rightarrow> nat \<Rightarrow> string \<Rightarrow> error + string" where
  "rows_loop row expNo out =
     (if expNo < 5 then
        (case row expNo out of
           Inl e \<Rightarrow> Inl e
         | Inr out' \<Rightarrow> rows_loop row (expNo + 1) out')
      else Inr out)"
  by pat_completeness auto
termination
  by (relation "measure (\<lambda>(row, expNo, out). 5 - expNo)") auto

declare rows_loop.simps [simp del]

definition header :: string where
  "header = ''exp,r1_s1,r2_s1,r3_s1,avg_s1,std_s1,unit_s1,r1_s2,r2_s2,r3_s2,avg_s2,std_s2,unit_s2''"

text \<open>The characters written to \<open>csvFile\<close> between \<open>open\<close> and \<open>close\<close>.\<close>

definition WriteResultsCsv :: "(real \<Rightarrow> string) \<Rightarrow> ExperimentData list \<Rightarrow> error + string" where
  "WriteResultsCsv fmt expData =
     (case rows_loop (throughput_row fmt expData) 0 (header @ [newline]) of
        Inl e \<Rightarrow> Inl e
      | Inr out \<Rightarrow> rows_loop (fct_row fmt expData) 0 out)"

text \<open>
  The layout of the report in closed form. The samples a slot shows are the first
  \<open>min(3, (int)size)\<close> of its sequence, each followed by a comma; then come the mean,
  the deviation and the unit.
\<close>

definition shown :: "real list \<Rightarrow> real list" where
  "shown v = take (nat (min 3 (int_of_size (length v)))) v"

definition slot_columns :: "(real \<Rightarrow> string) \<Rightarrow> real list \<Rightarrow> real \<Rightarrow> real \<Rightarrow> string \<Rightarrow> string" where
  "slot_columns fmt v mean stddev unit =
     concat (map (\<lambda>x. fmt x @ '','') (shown v)) @ fmt mean @ '','' @ fmt stddev @ '','' @ unit"

definition th_slot :: "(real \<Rightarrow> string) \<Rightarrow> ExperimentData \<Rightarrow> string" where
  "th_slot fmt d = slot_columns fmt (throughputs d) (meanThroughput d) (stddevThroughput d) ''Mbps''"

definition afct_slot :: "(real \<Rightarrow> string) \<Rightarrow> ExperimentData \<Rightarrow> string" where
  "afct_slot fmt d = slot_columns fmt (flowTimes d) (meanFlowTime d) (stddevFlowTime d) ''sec''"

definition th_line :: "(real \<Rightarrow> string) \<Rightarrow> ExperimentData list \<Rightarrow> nat \<Rightarrow> string" where
  "th_line fmt expData expNo =
     ''th_'' @ show_nat (expNo + 1) @ '','' @ th_slot fmt (expData ! (expNo * 2)) @ '','' @
     (if expNo = 0 \<or> expNo = 2 then [] else th_slot fmt (expData ! (expNo * 2 + 1)))"

definition afct_line :: "(real \<Rightarrow> string) \<Rightarrow> ExperimentData list \<Rightarrow> nat \<Rightarrow> string" where
  "afct_line fmt expData expNo =
     ''afct_'' @ show_nat (expNo + 1) @ '','' @ afct_slot fmt (expData ! (expNo * 2)) @
     (if expNo = 0 \<or> expNo = 2 then [] else '','' @ afct_slot fmt (expData ! (expNo * 2 + 1)))"

definition report_lines :: "(real \<Rightarrow> string) \<Rightarrow> ExperimentData list \<Rightarrow> string list" where
  "report_lines fmt expData =
     header # map (th_line fmt expData) [0..<5] @ map (afct_line fmt expData) [0..<5]"

subsection \<open>Notions for the statements\<close>

text \<open>
  What one flow can do to the store: leave the vectors, leave the store as it is, or add
  one pair of samples to one bucket.
\<close>

definition one_step :: "ExperimentData list \<Rightarrow> real \<Rightarrow> real \<Rightarrow> (error + ExperimentData list) \<Rightarrow> bool" where
  "one_step expData tput fc r \<longleftrightarrow>
     r = Inl OutOfRange \<or> r = Inr expData \<or>
     (\<exists>b<length expData. r = Inr (expData[b := add_sample (expData ! b) tput fc]))"

text \<open>Every bucket holds as many throughput samples as completion times.\<close>

definition lengths_agree :: "ExperimentData list \<Rightarrow> bool" where
  "lengths_agree expData \<longleftrightarrow> list_all (\<lambda>d. length (throughputs d) = length (flowTimes d)) expData"

subsection \<open>Inputs for evaluation\<close>

text \<open>
  Three dumbbells with two left leaves each, a flow that lasts one second, the three
  flows of one single-sender experiment (10 MB each, ten seconds apart), a
  value-initialised bucket, and the store the three flows lead to.
\<close>

definition example_dumbbells :: "Dumbbell list" where
  "example_dumbbells =
     [\<lparr>GetLeftIpv4Address = (\<lambda>i. if i = 0 then 0x0A010101 else 0x0A010105)\<rparr>,
      \<lparr>GetLeftIpv4Address = (\<lambda>i. if i = 0 then 0x0A020101 else 0x0A020105)\<rparr>,
      \<lparr>GetLeftIpv4Address = (\<lambda>i. if i = 0 then 0x0A030101 else 0x0A030105)\<rparr>]"

definition example_flow :: "32 word \<Rightarrow> 64 word \<Rightarrow> real \<Rightarrow> FiveTuple \<times> FlowStats" where
  "example_flow src bytes start =
     (\<lparr>sourceAddress = src, destinationAddress = 0x0A010201\<rparr>,
      \<lparr>rxBytes = bytes, timeFirstTxPacket = start, timeLastTxPacket = start + 1,
       timeLastRxPacket = start + 1\<rparr>)"

definition example_flows :: "(FiveTuple \<times> FlowStats) list" where
  "example_flows =
     [example_flow 0x0A010101 10000000 1, example_flow 0x0A010101 10000000 11,
      example_flow 0x0A010101 10000000 21]"

definition bucket0 :: ExperimentData where
  "bucket0 = \<lparr>throughputs = [], flowTimes = [], meanThroughput = 0, stddevThroughput = 0,
              meanFlowTime = 0, stddevFlowTime = 0\<rparr>"

definition example_store :: "ExperimentData list" where
  "example_store = experimentData_init
     [0 := \<lparr>throughputs = [80, 80, 80], flowTimes = [1, 1, 1], meanThroughput = 80,
            stddevThroughput = 0, meanFlowTime = 1, stddevFlowTime = 0\<rparr>]"

section \<open>Statistics\<close>

lemma foldl_plus_sum_list:
  "foldl (\<lambda>acc val. acc + f val) a xs = a + sum_list (map f xs)" for a :: real
  by (induction xs arbitrary: a) (simp_all add: add.assoc)

text \<open>
  C2. On the empty sequence \<open>CalculateStats\<close> returns (0, 0) through its early return, and
  on every other sequence it returns the mean \<open>sum(values)/len(values)\<close> and the
  population standard deviation \<open>sqrt(sum((v - mean)^2)/len(values))\<close>.
\<close>

theorem CalculateStats_spec:
  "CalculateStats [] = (0, 0) \<and>
   CalculateStats (v # vs) = (spec_mean (v # vs), spec_stddev (v # vs))"
proof -
  have m: "foldl (\<lambda>mean val. mean + val) 0 (v # vs) = sum_list (v # vs)"
    using foldl_plus_sum_list [of "\<lambda>x. x" 0 "v # vs"] by simp
  have s: "foldl (\<lambda>stddev val. stddev + (val - c) ^ 2) 0 (v # vs)
      = sum_list (map (\<lambda>x. (x - c) ^ 2) (v # vs))" for c
    using foldl_plus_sum_list [of "\<lambda>x. (x - c) ^ 2" 0 "v # vs"] by simp
  have "CalculateStats (v # vs) = (spec_mean (v # vs), spec_stddev (v # vs))"
    unfolding CalculateStats_def Let_def spec_mean_def spec_stddev_def m s by simp
  moreover have "CalculateStats [] = (0, 0)"
    by (simp add: CalculateStats_def)
  ultimately show ?thesis by simp
qed


section \<open>Classification of flows\<close>

subsection \<open>One flow changes at most one bucket\<close>

lemma push_sample_ok:
  "b < length expData \<Longrightarrow>
   push_sample expData b tput fc = Inr (expData[b := add_sample (expData ! b) tput fc])"
  by (simp add: push_sample_def vec_at_def)

lemma push_sample_cases:
  "push_sample expData b tput fc = Inl OutOfRange \<or>
   (b < length expData \<and>
    push_sample expData b tput fc = Inr (expData[b := add_sample (expData ! b) tput fc]))"
  by (simp add: push_sample_def vec_at_def)

lemma one_step_push: "one_step expData tput fc (push_sample expData b tput fc)"
  using push_sample_cases [of expData b tput fc] by (auto simp: one_step_def)

lemma one_step_skip: "one_step expData tput fc (Inr expData)"
  by (simp add: one_step_def)

lemma one_step_fail: "one_step expData tput fc (Inl e)"
  by (cases e) (simp add: one_step_def)

lemma assign_flow_one_step:
  "one_step expData tput fc (assign_flow dumbbells tuple tput fc expIdx expData)"
  unfolding assign_flow_def
  by (simp add: one_step_push one_step_skip one_step_fail split: sum.split)

lemma exp_loop_one_step:
  "one_step expData tput fc (exp_loop dumbbells expTimings tuple tput fc startTime expIdx expData)"
proof (induction dumbbells expTimings tuple tput fc startTime expIdx expData rule: exp_loop.induct)
  case (1 dumbbells expTimings tuple tput fc startTime expIdx expData)
  then show ?case
    by (subst exp_loop.simps) (simp add: assign_flow_one_step one_step_skip)
qed

lemma process_flow_one_step:
  "one_step expData (tputMbps (snd flow)) (fct (snd flow))
     (process_flow dumbbells expTimings flow expData)"
  by (simp add: process_flow_def exp_loop_one_step one_step_skip)

subsection \<open>The window search\<close>

lemma exp_loop_first:
  assumes "idx < length expTimings"
    and "in_window (expTimings ! idx) startTime"
    and "\<forall>j. k \<le> j \<and> j < idx \<longrightarrow> \<not> in_window (expTimings ! j) startTime"
    and "k \<le> idx"
  shows "exp_loop dumbbells expTimings tuple tput fc startTime k expData
       = assign_flow dumbbells tuple tput fc idx expData"
  using assms
proof (induction "idx - k" arbitrary: k)
  case 0
  then have "k = idx" by simp
  with 0 show ?case
    by (subst exp_loop.simps) (simp add: in_window_def)
next
  case (Suc n)
  then have lt: "k < idx" by simp
  with Suc.prems have no: "\<not> in_window (expTimings ! k) startTime" by simp
  have "exp_loop dumbbells expTimings tuple tput fc startTime k expData
      = exp_loop dumbbells expTimings tuple tput fc startTime (k + 1) expData"
    using lt Suc.prems(1) no by (subst exp_loop.simps) (auto simp: in_window_def)
  also have "\<dots> = assign_flow dumbbells tuple tput fc idx expData"
    using Suc.hyps(2) lt Suc.prems by (intro Suc.hyps(1)) auto
  finally show ?case .
qed

lemma windows_apart_nth:
  "windows_apart ws \<Longrightarrow> i < j \<Longrightarrow> j < length ws \<Longrightarrow>
   snd (ws ! i) \<le> fst (ws ! j) \<or> snd (ws ! j) \<le> fst (ws ! i)"
proof (induction ws arbitrary: i j)
  case Nil
  then show ?case by simp
next
  case (Cons w ws)
  show ?case
  proof (cases i)
    case 0
    with Cons.prems obtain j' where j: "j = Suc j'" "j' < length ws"
      by (cases j) auto
    with Cons.prems(1) have "snd w \<le> fst (ws ! j') \<or> snd (ws ! j') \<le> fst w"
      by (simp add: list_all_length)
    with 0 j show ?thesis by simp
  next
    case (Suc i')
    with Cons.prems obtain j' where j: "j = Suc j'" "i' < j'" "j' < length ws"
      by (cases j) auto
    with Cons.prems(1) Cons.IH [of i' j'] Suc show ?thesis by simp
  qed
qed

lemma windows_apart_disjoint:
  assumes "windows_apart ws" "i < length ws" "j < length ws" "i \<noteq> j"
    and "in_window (ws ! i) t"
  shows "\<not> in_window (ws ! j) t"
proof -
  consider "i < j" | "j < i" using assms(4) by linarith
  then show ?thesis
  proof cases
    case 1
    from windows_apart_nth [OF assms(1) 1 assms(3)] assms(5) show ?thesis
      by (auto simp: in_window_def)
  next
    case 2
    from windows_apart_nth [OF assms(1) 2 assms(2)] assms(5) show ?thesis
      by (auto simp: in_window_def)
  qed
qed

lemma exp_loop_window:
  assumes "windows_apart expTimings" "idx < length expTimings"
    and "in_window (expTimings ! idx) startTime"
  shows "exp_loop dumbbells expTimings tuple tput fc startTime 0 expData
       = assign_flow dumbbells tuple tput fc idx expData"
proof (rule exp_loop_first [OF assms(2,3)])
  show "\<forall>j. 0 \<le> j \<and> j < idx \<longrightarrow> \<not> in_window (expTimings ! j) startTime"
    using windows_apart_disjoint [OF assms(1) assms(2) _ _ assms(3)] assms(2) by auto
qed simp

subsection \<open>The schedule of main\<close>

lemma expTimings_loop_eq:
  "expTimings_loop n expStart expTimings =
   expTimings @ map (\<lambda>i. (expStart + 31 * real i, expStart + 31 * real i + 30)) [0..<n]"
proof (induction n arbitrary: expStart expTimings)
  case 0
  then show ?case by simp
next
  case (Suc n)
  have "map (\<lambda>i. (expStart + 31 * real i, expStart + 31 * real i + 30)) [0..<Suc n]
      = (expStart, expStart + 30)
        # map (\<lambda>i. (expStart + 30 + 1 + 31 * real i, expStart + 30 + 1 + 31 * real i + 30)) [0..<n]"
    by (simp only: map_upt_Suc) (simp add: algebra_simps)
  then show ?case
    by (simp add: Suc.IH Let_def del: upt_Suc)
qed

lemma windows_apartI:
  "(\<And>i j. i < j \<Longrightarrow> j < length ws \<Longrightarrow> snd (ws ! i) \<le> fst (ws ! j)) \<Longrightarrow> windows_apart ws"
proof (induction ws)
  case Nil
  then show ?case by simp
next
  case (Cons w ws)
  have "list_all (\<lambda>v. snd w \<le> fst v \<or> snd v \<le> fst w) ws"
    unfolding list_all_length
  proof (intro allI impI)
    fix n assume "n < length ws"
    then show "snd w \<le> fst (ws ! n) \<or> snd (ws ! n) \<le> fst w"
      using Cons.prems [of 0 "Suc n"] by simp
  qed
  moreover have "windows_apart ws"
  proof (rule Cons.IH)
    fix i j assume "i < j" "j < length ws"
    then show "snd (ws ! i) \<le> fst (ws ! j)"
      using Cons.prems [of "Suc i" "Suc j"] by simp
  qed
  ultimately show ?case by simp
qed

lemma schedule_nth:
  "i < n \<Longrightarrow> expTimings_loop n offset [] ! i = (offset + 31 * real i, offset + 31 * real i + 30)"
  by (simp add: expTimings_loop_eq del: upt_Suc)

lemma schedule_length: "length (expTimings_loop n offset []) = n"
  by (simp add: expTimings_loop_eq)

lemma schedule_apart: "windows_apart (expTimings_loop n offset [])"
proof (rule windows_apartI)
  fix i j assume a: "i < j" "j < length (expTimings_loop n offset [])"
  then have "j < n" "i < n" by (simp_all add: schedule_length)
  moreover have "real i + 1 \<le> real j" using a(1) by simp
  ultimately show "snd (expTimings_loop n offset [] ! i) \<le> fst (expTimings_loop n offset [] ! j)"
    by (simp add: schedule_nth)
qed

lemma main_expTimings_1: "main_expTimings 1 = [(1,31),(32,62),(63,93),(94,124),(125,155)]"
  by (simp add: main_expTimings_def eval_nat_numeral)

subsection \<open>Runs inside the vectors\<close>

lemma assign_flow_total:
  assumes "3 \<le> length dumbbells" "10 \<le> length expData"
  shows "\<exists>expData'. assign_flow dumbbells tuple tput fc expIdx expData = Inr expData'
           \<and> length expData' = length expData"
proof -
  have p: "\<exists>expData'. push_sample expData b tput fc = Inr expData'
           \<and> length expData' = length expData" if "b < 10" for b
    using that assms(2) by (simp add: push_sample_ok)
  have d: "dumbbells \<noteq> []" "Suc 0 < length dumbbells" "2 < length dumbbells"
    using assms(1) by auto
  consider "expIdx = 0" | "expIdx = 1" | "expIdx = 2" | "expIdx = 3" | "expIdx = 4" | "4 < expIdx"
    by linarith
  then show ?thesis
  proof cases
    case 1
    then show ?thesis using p [of 0] by (simp add: assign_flow_def)
  next
    case 2
    then show ?thesis using p [of 2] p [of 3] d by (simp add: assign_flow_def vec_at_def)
  next
    case 3
    then show ?thesis using p [of 4] by (simp add: assign_flow_def)
  next
    case 4
    then show ?thesis using p [of 6] p [of 7] d by (simp add: assign_flow_def vec_at_def)
  next
    case 5
    then show ?thesis using p [of 8] p [of 9] d by (simp add: assign_flow_def vec_at_def)
  next
    case 6
    then show ?thesis by (simp add: assign_flow_def)
  qed
qed

lemma exp_loop_total:
  assumes "3 \<le> length dumbbells" "10 \<le> length expData"
  shows "\<exists>expData'. exp_loop dumbbells expTimings tuple tput fc startTime expIdx expData = Inr expData'
           \<and> length expData' = length expData"
  using assms
proof (induction dumbbells expTimings tuple tput fc startTime expIdx expData rule: exp_loop.induct)
  case (1 dumbbells expTimings tuple tput fc startTime expIdx expData)
  then show ?case
    by (subst exp_loop.simps) (simp add: assign_flow_total)
qed

lemma process_flow_total:
  assumes "3 \<le> length dumbbells" "10 \<le> length expData"
  shows "\<exists>expData'. process_flow dumbbells expTimings flow expData = Inr expData'
           \<and> length expData' = length expData"
  using exp_loop_total [OF assms] by (simp add: process_flow_def)

lemma flows_loop_total:
  assumes "3 \<le> length dumbbells" "10 \<le> length expData"
  shows "\<exists>expData'. flows_loop dumbbells expTimings flows expData = Inr expData'
           \<and> length expData' = length expData"
  using assms(2)
proof (induction flows arbitrary: expData)
  case Nil
  then show ?case by simp
next
  case (Cons flow flows)
  from process_flow_total [OF assms(1) Cons.prems, of expTimings flow]
  obtain xs where xs: "process_flow dumbbells expTimings flow expData = Inr xs"
    "length xs = length expData" by blast
  with Cons.prems Cons.IH [of xs] show ?case by simp
qed

subsection \<open>The invariant of the store\<close>

lemma lengths_agree_update:
  assumes "lengths_agree expData" "b < length expData"
  shows "lengths_agree (expData[b := add_sample (expData ! b) tput fc])"
proof -
  have "length (throughputs (add_sample (expData ! b) tput fc))
      = length (flowTimes (add_sample (expData ! b) tput fc))"
    using assms by (simp add: add_sample_def lengths_agree_def list_all_length)
  with assms show ?thesis
    by (auto simp: lengths_agree_def list_all_length nth_list_update)
qed

lemma one_step_lengths_agree:
  assumes "one_step expData tput fc r" "lengths_agree expData" "r = Inr expData'"
  shows "lengths_agree expData'"
  using assms lengths_agree_update by (auto simp: one_step_def)

lemma flows_loop_lengths_agree:
  "lengths_agree expData \<Longrightarrow> flows_loop dumbbells expTimings flows expData = Inr expData' \<Longrightarrow>
   lengths_agree expData'"
proof (induction flows arbitrary: expData)
  case Nil
  then show ?case by simp
next
  case (Cons flow flows)
  from Cons.prems(2) obtain xs where xs: "process_flow dumbbells expTimings flow expData = Inr xs"
    "flows_loop dumbbells expTimings flows xs = Inr expData'"
    by (auto split: sum.splits)
  have "lengths_agree xs"
    using one_step_lengths_agree [OF process_flow_one_step Cons.prems(1) xs(1)] .
  then show ?case using Cons.IH xs(2) by blast
qed

lemma update_stats_samples:
  "throughputs (update_stats d) = throughputs d" "flowTimes (update_stats d) = flowTimes d"
  by (simp_all add: update_stats_def Let_def)

lemma lengths_agree_map_update_stats:
  "lengths_agree expData \<Longrightarrow> lengths_agree (map update_stats expData)"
  by (simp add: lengths_agree_def list_all_length update_stats_samples)

subsection \<open>The example run\<close>

lemma example_process:
  "process_flow example_dumbbells (main_expTimings 1) (example_flow src 2000000 12)
     experimentData_init
   = Inr (experimentData_init[0 := add_sample (experimentData_init ! 0) 16 1])"
proof -
  have "exp_loop example_dumbbells (main_expTimings 1) tuple tput fc 12 0 experimentData_init
      = assign_flow example_dumbbells tuple tput fc 0 experimentData_init" for tuple tput fc
    by (rule exp_loop_window) (simp_all add: main_expTimings_1 in_window_def)
  then show ?thesis
    by (simp add: process_flow_def example_flow_def assign_flow_def push_sample_ok
        experimentData_init_def tputMbps_def fct_def)
qed

lemma example_changed:
  "experimentData_init[0 := add_sample (experimentData_init ! 0) 16 1] \<noteq> experimentData_init"
  by (simp add: experimentData_init_def add_sample_def eval_nat_numeral)

lemma example_first_window:
  assumes "1 \<le> start" "start < 31" "expData \<noteq> []"
  shows "process_flow example_dumbbells (main_expTimings 1) (example_flow src 10000000 start)
           expData
       = Inr (expData[0 := add_sample (expData ! 0) 80 1])"
proof -
  have "exp_loop example_dumbbells (main_expTimings 1) tuple tput fc start 0 expData
      = assign_flow example_dumbbells tuple tput fc 0 expData" for tuple tput fc
    using assms(1,2) by (intro exp_loop_window) (simp_all add: main_expTimings_1 in_window_def)
  then show ?thesis
    using assms(3)
    by (simp add: process_flow_def example_flow_def assign_flow_def push_sample_ok
        tputMbps_def fct_def)
qed

lemma example_loop:
  "flows_loop example_dumbbells (main_expTimings 1) example_flows experimentData_init
   = Inr (experimentData_init
       [0 := bucket0\<lparr>throughputs := [80, 80, 80], flowTimes := [1, 1, 1]\<rparr>])"
proof -
  have i: "experimentData_init = bucket0 # replicate 9 bucket0"
    by (simp add: experimentData_init_def bucket0_def eval_nat_numeral)
  show ?thesis
    unfolding example_flows_def i
    by (simp add: example_first_window add_sample_def bucket0_def)
qed

lemma update_stats_bucket0: "update_stats bucket0 = bucket0"
  by (simp add: update_stats_def bucket0_def CalculateStats_def)

lemma update_stats_example:
  "update_stats (bucket0\<lparr>throughputs := [80, 80, 80], flowTimes := [1, 1, 1]\<rparr>)
   = \<lparr>throughputs = [80, 80, 80], flowTimes = [1, 1, 1], meanThroughput = 80,
      stddevThroughput = 0, meanFlowTime = 1, stddevFlowTime = 0\<rparr>"
  by (simp add: update_stats_def bucket0_def CalculateStats_def)

lemma example_run:
  "ProcessFlowMonitorResults example_dumbbells (main_expTimings 1) example_flows
     experimentData_init = Inr example_store"
proof -
  have i: "map update_stats experimentData_init = experimentData_init"
    using update_stats_bucket0 by (simp add: experimentData_init_def bucket0_def)
  show ?thesis
    by (simp add: ProcessFlowMonitorResults_def example_loop map_update i update_stats_example
        example_store_def)
qed

subsection \<open>The claims on classification\<close>

text \<open>
  C3. A flow with \<open>rxBytes \<le> 1000000\<close> leaves the store as it is, whatever its times and
  its sender: the loop over the flows goes on with the same store. Only a flow with more
  than 1000000 bytes reaches the window search.
\<close>

theorem small_flow_discarded:
  assumes "rxBytes st \<le> 1000000"
  shows "process_flow dumbbells expTimings (tuple, st) expData = Inr expData \<and>
         flows_loop dumbbells expTimings ((tuple, st) # flows) expData
           = flows_loop dumbbells expTimings flows expData"
proof -
  from assms have "\<not> 1000000 < rxBytes st" by (rule leD)
  then show ?thesis by (simp add: process_flow_def)
qed

theorem small_flow_discarded_witness:
  "rxBytes (snd (example_flow 0x0A010101 900000 12)) \<le> 1000000 \<and>
   process_flow example_dumbbells (main_expTimings 1) (example_flow 0x0A010101 900000 12)
     experimentData_init = Inr experimentData_init"
proof -
  have h: "rxBytes (snd (example_flow 0x0A010101 900000 12)) \<le> 1000000"
    by (simp add: example_flow_def)
  from small_flow_discarded [OF h, where dumbbells = example_dumbbells
      and expTimings = "main_expTimings 1" and expData = experimentData_init
      and tuple = "fst (example_flow 0x0A010101 900000 12)"] h
  show ?thesis by simp
qed

text \<open>
  C4. The experiments with one sender are those of index 0 and 2. A flow above the
  threshold that starts in the window of one of them is added to bucket \<open>2 * expIdx\<close>,
  the first slot of that experiment: the bucket's throughputs end with the flow's
  throughput, its completion times with the flow's completion time, and nothing else in
  the store changes. The result depends neither on the flow's sender nor on the
  dumbbells. The windows are taken apart, as the schedule builds them, and the store
  holds the bucket.
\<close>

theorem one_sender_slot0:
  assumes "1000000 < rxBytes st"
    and "windows_apart expTimings"
    and "expIdx < length expTimings"
    and "in_window (expTimings ! expIdx) (timeFirstTxPacket st)"
    and "expIdx = 0 \<or> expIdx = 2"
    and "expIdx * 2 < length expData"
  shows "process_flow dumbbells expTimings (tuple, st) expData
       = Inr (expData[expIdx * 2 := (expData ! (expIdx * 2))
            \<lparr>throughputs := throughputs (expData ! (expIdx * 2)) @ [tputMbps st],
             flowTimes := flowTimes (expData ! (expIdx * 2)) @ [fct st]\<rparr>])"
proof -
  have "process_flow dumbbells expTimings (tuple, st) expData
      = assign_flow dumbbells tuple (tputMbps st) (fct st) expIdx expData"
    using assms(1) exp_loop_window [OF assms(2,3,4)] by (simp add: process_flow_def)
  also have "\<dots> = push_sample expData (expIdx * 2) (tputMbps st) (fct st)"
    using assms(5) by (auto simp: assign_flow_def)
  finally show ?thesis
    using assms(6) by (simp add: push_sample_ok add_sample_def)
qed

theorem one_sender_slot0_witness:
  "process_flow example_dumbbells (main_expTimings 1) (example_flow 0x0A020105 2000000 12)
     experimentData_init
   = Inr (experimentData_init
       [0 := \<lparr>throughputs = [16], flowTimes = [1], meanThroughput = 0,
            stddevThroughput = 0, meanFlowTime = 0, stddevFlowTime = 0\<rparr>]) \<and>
   experimentData_init
       [0 := \<lparr>throughputs = [16], flowTimes = [1], meanThroughput = 0,
            stddevThroughput = 0, meanFlowTime = 0, stddevFlowTime = 0\<rparr>] \<noteq> experimentData_init"
proof -
  let ?st = "snd (example_flow 0x0A020105 2000000 12)"
  have h1: "1000000 < rxBytes ?st" by (simp add: example_flow_def)
  have h2: "windows_apart (main_expTimings 1)" by (simp add: main_expTimings_1)
  have h3: "0 < length (main_expTimings 1)" by (simp add: main_expTimings_1)
  have h4: "in_window (main_expTimings 1 ! 0) (timeFirstTxPacket ?st)"
    by (simp add: main_expTimings_1 in_window_def example_flow_def)
  have h5: "(0::nat) = 0 \<or> (0::nat) = 2" by simp
  have h6: "0 * 2 < length experimentData_init" by (simp add: experimentData_init_def)
  have t: "tputMbps ?st = 16" "fct ?st = 1"
    by (simp_all add: tputMbps_def fct_def example_flow_def)
  have b: "experimentData_init ! 0 = \<lparr>throughputs = [], flowTimes = [], meanThroughput = 0,
      stddevThroughput = 0, meanFlowTime = 0, stddevFlowTime = 0\<rparr>"
    by (simp add: experimentData_init_def)
  have n: "experimentData_init
       [0 := \<lparr>throughputs = [16], flowTimes = [1], meanThroughput = 0,
            stddevThroughput = 0, meanFlowTime = 0, stddevFlowTime = 0\<rparr>] \<noteq> experimentData_init"
    by (simp add: experimentData_init_def eval_nat_numeral)
  from one_sender_slot0 [OF h1 h2 h3 h4 h5 h6, of example_dumbbells
      "fst (example_flow 0x0A020105 2000000 12)"] n
  show ?thesis by (simp add: t b)
qed

text \<open>
  C5. The experiments with two senders are those of index 1, 3 and 4; their expected
  senders are the two left leaves of dumbbell \<open>expIdx div 2\<close>. A flow above the threshold
  that starts in such a window goes to bucket \<open>2 * expIdx\<close> when its sender is the first
  leaf, else to bucket \<open>2 * expIdx + 1\<close> when it is the second leaf, and else leaves the
  store as it is. Going to a bucket is having one's throughput and completion time put
  at the end of the bucket's two sequences.
\<close>

theorem two_senders_by_address:
  assumes "1000000 < rxBytes st"
    and "windows_apart expTimings"
    and "expIdx < length expTimings"
    and "in_window (expTimings ! expIdx) (timeFirstTxPacket st)"
    and "expIdx = 1 \<or> expIdx = 3 \<or> expIdx = 4"
    and "expIdx div 2 < length dumbbells"
    and "expIdx * 2 + 1 < length expData"
  shows "process_flow dumbbells expTimings (tuple, st) expData =
      (if sourceAddress tuple = GetLeftIpv4Address (dumbbells ! (expIdx div 2)) 0 then
         Inr (expData[expIdx * 2 := (expData ! (expIdx * 2))
                \<lparr>throughputs := throughputs (expData ! (expIdx * 2)) @ [tputMbps st],
                 flowTimes := flowTimes (expData ! (expIdx * 2)) @ [fct st]\<rparr>])
       else if sourceAddress tuple = GetLeftIpv4Address (dumbbells ! (expIdx div 2)) 1 then
         Inr (expData[expIdx * 2 + 1 := (expData ! (expIdx * 2 + 1))
                \<lparr>throughputs := throughputs (expData ! (expIdx * 2 + 1)) @ [tputMbps st],
                 flowTimes := flowTimes (expData ! (expIdx * 2 + 1)) @ [fct st]\<rparr>])
       else Inr expData)"
proof -
  have "process_flow dumbbells expTimings (tuple, st) expData
      = assign_flow dumbbells tuple (tputMbps st) (fct st) expIdx expData"
    using assms(1) exp_loop_window [OF assms(2,3,4)] by (simp add: process_flow_def)
  also have "\<dots> =
      (if sourceAddress tuple = GetLeftIpv4Address (dumbbells ! (expIdx div 2)) 0 then
         push_sample expData (expIdx * 2) (tputMbps st) (fct st)
       else if sourceAddress tuple = GetLeftIpv4Address (dumbbells ! (expIdx div 2)) 1 then
         push_sample expData (expIdx * 2 + 1) (tputMbps st) (fct st)
       else Inr expData)"
    using assms(5)
  proof (elim disjE)
    assume "expIdx = 1"
    with assms(6) show ?thesis by (simp add: assign_flow_def vec_at_def)
  next
    assume "expIdx = 3"
    with assms(6) show ?thesis by (simp add: assign_flow_def vec_at_def)
  next
    assume "expIdx = 4"
    with assms(6) show ?thesis by (simp add: assign_flow_def vec_at_def)
  qed
  finally show ?thesis
    using assms(7) by (simp add: push_sample_ok add_sample_def)
qed

theorem two_senders_by_address_witness:
  "process_flow example_dumbbells (main_expTimings 1) (example_flow 0x0A010101 2000000 40)
     experimentData_init
   = Inr (experimentData_init
       [2 := \<lparr>throughputs = [16], flowTimes = [1], meanThroughput = 0,
            stddevThroughput = 0, meanFlowTime = 0, stddevFlowTime = 0\<rparr>]) \<and>
   process_flow example_dumbbells (main_expTimings 1) (example_flow 0x0A010105 2000000 40)
     experimentData_init
   = Inr (experimentData_init
       [3 := \<lparr>throughputs = [16], flowTimes = [1], meanThroughput = 0,
            stddevThroughput = 0, meanFlowTime = 0, stddevFlowTime = 0\<rparr>]) \<and>
   process_flow example_dumbbells (main_expTimings 1) (example_flow 0x0A020101 2000000 40)
     experimentData_init
   = Inr experimentData_init \<and>
   experimentData_init
       [2 := \<lparr>throughputs = [16], flowTimes = [1], meanThroughput = 0,
            stddevThroughput = 0, meanFlowTime = 0, stddevFlowTime = 0\<rparr>] \<noteq> experimentData_init \<and>
   experimentData_init
       [3 := \<lparr>throughputs = [16], flowTimes = [1], meanThroughput = 0,
            stddevThroughput = 0, meanFlowTime = 0, stddevFlowTime = 0\<rparr>] \<noteq> experimentData_init \<and>
   experimentData_init
       [2 := \<lparr>throughputs = [16], flowTimes = [1], meanThroughput = 0,
            stddevThroughput = 0, meanFlowTime = 0, stddevFlowTime = 0\<rparr>] \<noteq>
   experimentData_init
       [3 := \<lparr>throughputs = [16], flowTimes = [1], meanThroughput = 0,
            stddevThroughput = 0, meanFlowTime = 0, stddevFlowTime = 0\<rparr>]"
proof -
  have h2: "windows_apart (main_expTimings 1)" by (simp add: main_expTimings_1)
  have h3: "1 < length (main_expTimings 1)" by (simp add: main_expTimings_1)
  have h5: "(1::nat) = 1 \<or> (1::nat) = 3 \<or> (1::nat) = 4" by simp
  have h6: "1 div 2 < length example_dumbbells" by (simp add: example_dumbbells_def)
  have h7: "1 * 2 + 1 < length experimentData_init" by (simp add: experimentData_init_def)
  have h1: "1000000 < rxBytes (snd (example_flow src 2000000 40))" for src
    by (simp add: example_flow_def)
  have h4: "in_window (main_expTimings 1 ! 1) (timeFirstTxPacket (snd (example_flow src 2000000 40)))"
    for src
    by (simp add: main_expTimings_1 in_window_def example_flow_def)
  have t: "tputMbps (snd (example_flow src 2000000 40)) = 16"
    "fct (snd (example_flow src 2000000 40)) = 1"
    "sourceAddress (fst (example_flow src 2000000 40)) = src" for src
    by (simp_all add: tputMbps_def fct_def example_flow_def)
  have d: "GetLeftIpv4Address (example_dumbbells ! (1 div 2)) 0 = 0x0A010101"
    "GetLeftIpv4Address (example_dumbbells ! (1 div 2)) 1 = 0x0A010105"
    by (simp_all add: example_dumbbells_def)
  have b: "experimentData_init ! (1 * 2) = \<lparr>throughputs = [], flowTimes = [],
      meanThroughput = 0, stddevThroughput = 0, meanFlowTime = 0, stddevFlowTime = 0\<rparr>"
    "experimentData_init ! (1 * 2 + 1) = \<lparr>throughputs = [], flowTimes = [],
      meanThroughput = 0, stddevThroughput = 0, meanFlowTime = 0, stddevFlowTime = 0\<rparr>"
    by (simp_all add: experimentData_init_def)
  have r: "process_flow example_dumbbells (main_expTimings 1) (example_flow src 2000000 40)
      experimentData_init =
      (if src = 0x0A010101 then
         Inr (experimentData_init[1 * 2 := (experimentData_init ! (1 * 2))
                \<lparr>throughputs := throughputs (experimentData_init ! (1 * 2)) @ [16],
                 flowTimes := flowTimes (experimentData_init ! (1 * 2)) @ [1]\<rparr>])
       else if src = 0x0A010105 then
         Inr (experimentData_init[1 * 2 + 1 := (experimentData_init ! (1 * 2 + 1))
                \<lparr>throughputs := throughputs (experimentData_init ! (1 * 2 + 1)) @ [16],
                 flowTimes := flowTimes (experimentData_init ! (1 * 2 + 1)) @ [1]\<rparr>])
       else Inr experimentData_init)" for src
    using two_senders_by_address [OF h1 h2 h3 h4 h5 h6 h7,
        where tuple = "fst (example_flow src 2000000 40)" and src1 = src]
    unfolding t d prod.collapse .
  have "process_flow example_dumbbells (main_expTimings 1) (example_flow 0x0A010101 2000000 40)
     experimentData_init
   = Inr (experimentData_init
       [2 := \<lparr>throughputs = [16], flowTimes = [1], meanThroughput = 0,
            stddevThroughput = 0, meanFlowTime = 0, stddevFlowTime = 0\<rparr>])"
    using r [of "0x0A010101"] unfolding b by simp
  moreover have
    "process_flow example_dumbbells (main_expTimings 1) (example_flow 0x0A010105 2000000 40)
     experimentData_init
   = Inr (experimentData_init
       [3 := \<lparr>throughputs = [16], flowTimes = [1], meanThroughput = 0,
            stddevThroughput = 0, meanFlowTime = 0, stddevFlowTime = 0\<rparr>])"
    using r [of "0x0A010105"] unfolding b by simp
  moreover have
    "process_flow example_dumbbells (main_expTimings 1) (example_flow 0x0A020101 2000000 40)
     experimentData_init
   = Inr experimentData_init"
    using r [of "0x0A020101"] by simp
  moreover have "experimentData_init
       [2 := \<lparr>throughputs = [16], flowTimes = [1], meanThroughput = 0,
            stddevThroughput = 0, meanFlowTime = 0, stddevFlowTime = 0\<rparr>] \<noteq> experimentData_init"
    "experimentData_init
       [3 := \<lparr>throughputs = [16], flowTimes = [1], meanThroughput = 0,
            stddevThroughput = 0, meanFlowTime = 0, stddevFlowTime = 0\<rparr>] \<noteq> experimentData_init"
    "experimentData_init
       [2 := \<lparr>throughputs = [16], flowTimes = [1], meanThroughput = 0,
            stddevThroughput = 0, meanFlowTime = 0, stddevFlowTime = 0\<rparr>] \<noteq>
     experimentData_init
       [3 := \<lparr>throughputs = [16], flowTimes = [1], meanThroughput = 0,
            stddevThroughput = 0, meanFlowTime = 0, stddevFlowTime = 0\<rparr>]"
    by (simp_all add: experimentData_init_def eval_nat_numeral)
  ultimately show ?thesis by blast
qed

text \<open>
  C6. The windows of the schedule start at the offset, last 30 and follow one another
  with a gap of 1, so no time lies in two of them. The first window that holds a flow's
  start time decides on the flow, whatever the later windows are. And a flow either
  leaves the store as it is or adds its samples to exactly one bucket (the first disjunct
  is a run that leaves its vectors).
\<close>

theorem at_most_one_bucket:
  "length (main_expTimings offset) = 5 \<and>
   fst (main_expTimings offset ! 0) = offset \<and>
   (\<forall>i<5. snd (main_expTimings offset ! i) = fst (main_expTimings offset ! i) + 30) \<and>
   (\<forall>i<5. 0 < i \<longrightarrow> fst (main_expTimings offset ! i) = snd (main_expTimings offset ! (i - 1)) + 1) \<and>
   (\<forall>i<5. \<forall>j<5. i \<noteq> j \<longrightarrow>
      \<not> (in_window (main_expTimings offset ! i) t \<and> in_window (main_expTimings offset ! j) t)) \<and>
   (\<forall>idx<length expTimings.
      1000000 < rxBytes (snd flow) \<and>
      in_window (expTimings ! idx) (timeFirstTxPacket (snd flow)) \<and>
      (\<forall>j<idx. \<not> in_window (expTimings ! j) (timeFirstTxPacket (snd flow))) \<longrightarrow>
      process_flow dumbbells expTimings flow expData =
        assign_flow dumbbells (fst flow) (tputMbps (snd flow)) (fct (snd flow)) idx expData) \<and>
   (process_flow dumbbells expTimings flow expData = Inl OutOfRange \<or>
    process_flow dumbbells expTimings flow expData = Inr expData \<or>
    (\<exists>b<length expData. process_flow dumbbells expTimings flow expData =
       Inr (expData[b := add_sample (expData ! b) (tputMbps (snd flow)) (fct (snd flow))])))"
proof -
  have f: "\<forall>idx<length expTimings.
      1000000 < rxBytes (snd flow) \<and>
      in_window (expTimings ! idx) (timeFirstTxPacket (snd flow)) \<and>
      (\<forall>j<idx. \<not> in_window (expTimings ! j) (timeFirstTxPacket (snd flow))) \<longrightarrow>
      process_flow dumbbells expTimings flow expData =
        assign_flow dumbbells (fst flow) (tputMbps (snd flow)) (fct (snd flow)) idx expData"
  proof (intro allI impI)
    fix idx
    assume i: "idx < length expTimings"
      and a: "1000000 < rxBytes (snd flow) \<and>
        in_window (expTimings ! idx) (timeFirstTxPacket (snd flow)) \<and>
        (\<forall>j<idx. \<not> in_window (expTimings ! j) (timeFirstTxPacket (snd flow)))"
    have "exp_loop dumbbells expTimings (fst flow) (tputMbps (snd flow)) (fct (snd flow))
        (timeFirstTxPacket (snd flow)) 0 expData
      = assign_flow dumbbells (fst flow) (tputMbps (snd flow)) (fct (snd flow)) idx expData"
      using i a by (intro exp_loop_first) simp_all
    with a show "process_flow dumbbells expTimings flow expData =
        assign_flow dumbbells (fst flow) (tputMbps (snd flow)) (fct (snd flow)) idx expData"
      by (simp add: process_flow_def)
  qed
  have len: "length (main_expTimings offset) = 5"
    by (simp add: main_expTimings_def schedule_length)
  have nth: "main_expTimings offset ! i = (offset + 31 * real i, offset + 31 * real i + 30)"
    if "i < 5" for i
    using that unfolding main_expTimings_def by (rule schedule_nth)
  have apart: "windows_apart (main_expTimings offset)"
    unfolding main_expTimings_def by (rule schedule_apart)
  have a: "fst (main_expTimings offset ! 0) = offset"
    by (simp add: nth)
  have b: "\<forall>i<5. snd (main_expTimings offset ! i) = fst (main_expTimings offset ! i) + 30"
    by (simp add: nth)
  have c: "\<forall>i<5. 0 < i \<longrightarrow> fst (main_expTimings offset ! i) = snd (main_expTimings offset ! (i - 1)) + 1"
  proof (intro allI impI)
    fix i :: nat assume i: "i < 5" "0 < i"
    then have "i - 1 < 5" "real (i - 1) = real i - 1" by simp_all
    with i show "fst (main_expTimings offset ! i) = snd (main_expTimings offset ! (i - 1)) + 1"
      by (simp add: nth)
  qed
  have d: "\<forall>i<5. \<forall>j<5. i \<noteq> j \<longrightarrow>
      \<not> (in_window (main_expTimings offset ! i) t \<and> in_window (main_expTimings offset ! j) t)"
    using windows_apart_disjoint [OF apart] len by auto
  have e: "process_flow dumbbells expTimings flow expData = Inl OutOfRange \<or>
    process_flow dumbbells expTimings flow expData = Inr expData \<or>
    (\<exists>b<length expData. process_flow dumbbells expTimings flow expData =
       Inr (expData[b := add_sample (expData ! b) (tputMbps (snd flow)) (fct (snd flow))]))"
    using process_flow_one_step [of expData flow dumbbells expTimings]
    by (simp add: one_step_def)
  from len a b c d e f show ?thesis by blast
qed

theorem at_most_one_bucket_witness:
  "length (main_expTimings 1) = 5 \<and>
   main_expTimings 1 ! 0 = (1, 31) \<and> main_expTimings 1 ! 1 = (32, 62) \<and>
   \<not> (in_window (main_expTimings 1 ! 0) 12 \<and> in_window (main_expTimings 1 ! 1) 12) \<and>
   process_flow example_dumbbells (main_expTimings 1) (example_flow 0x0A020105 2000000 12)
     experimentData_init
     = Inr (experimentData_init[0 := add_sample (experimentData_init ! 0) 16 1]) \<and>
   assign_flow example_dumbbells (fst (example_flow 0x0A020105 2000000 12)) 16 1 0
     experimentData_init
     = Inr (experimentData_init[0 := add_sample (experimentData_init ! 0) 16 1])"
proof -
  let ?f = "example_flow 0x0A020105 2000000 12"
  note r = at_most_one_bucket [where offset = 1 and t = 12 and dumbbells = example_dumbbells
      and expTimings = "main_expTimings 1" and flow = ?f and expData = experimentData_init]
  have p: "process_flow example_dumbbells (main_expTimings 1) ?f experimentData_init
     = Inr (experimentData_init[0 := add_sample (experimentData_init ! 0) 16 1])"
    by (rule example_process)
  have v: "tputMbps (snd ?f) = 16" "fct (snd ?f) = 1"
    by (simp_all add: tputMbps_def fct_def example_flow_def)
  have h: "0 < length (main_expTimings 1)" "1000000 < rxBytes (snd ?f)"
    "in_window (main_expTimings 1 ! 0) (timeFirstTxPacket (snd ?f))"
    by (simp_all add: main_expTimings_1 example_flow_def in_window_def)
  from r h have "process_flow example_dumbbells (main_expTimings 1) ?f experimentData_init =
      assign_flow example_dumbbells (fst ?f) (tputMbps (snd ?f)) (fct (snd ?f)) 0
        experimentData_init"
    by simp
  then have a: "assign_flow example_dumbbells (fst ?f) 16 1 0 experimentData_init
     = Inr (experimentData_init[0 := add_sample (experimentData_init ! 0) 16 1])"
    unfolding v p by simp
  from r have l: "length (main_expTimings 1) = 5"
    and d: "\<forall>i<5. \<forall>j<5. i \<noteq> j \<longrightarrow>
      \<not> (in_window (main_expTimings 1 ! i) 12 \<and> in_window (main_expTimings 1 ! j) 12)"
    by blast+
  have "(0::nat) < 5" "(1::nat) < 5" "(0::nat) \<noteq> 1" by simp_all
  with d have n: "\<not> (in_window (main_expTimings 1 ! 0) 12 \<and> in_window (main_expTimings 1 ! 1) 12)"
    by blast
  have "main_expTimings 1 ! 0 = (1, 31)" "main_expTimings 1 ! 1 = (32, 62)"
    by (simp_all add: main_expTimings_1)
  with l n p a show ?thesis by blast
qed

text \<open>
  C7. When a flow changes the store, one bucket has received the throughput
  \<open>rxBytes * 8 / (lastRx - firstTx) / 10^6\<close> and the completion time
  \<open>lastTx - firstTx\<close>, each at the end of its sequence.
\<close>

theorem samples_appended:
  assumes "process_flow dumbbells expTimings (tuple, st) expData = Inr expData'"
    and "expData' \<noteq> expData"
  shows "\<exists>b<length expData. expData' = expData[b := (expData ! b)
           \<lparr>throughputs := throughputs (expData ! b) @
              [real (unat (rxBytes st)) * 8 / (timeLastRxPacket st - timeFirstTxPacket st) / 1000000],
            flowTimes := flowTimes (expData ! b) @ [timeLastTxPacket st - timeFirstTxPacket st]\<rparr>]"
  using process_flow_one_step [of expData "(tuple, st)" dumbbells expTimings] assms
  by (auto simp: one_step_def add_sample_def tputMbps_def fct_def)

theorem samples_appended_witness:
  "process_flow example_dumbbells (main_expTimings 1) (example_flow 0x0A020105 2000000 12)
     experimentData_init
     = Inr (experimentData_init[0 := add_sample (experimentData_init ! 0) 16 1]) \<and>
   (\<exists>b<length experimentData_init.
      experimentData_init[0 := add_sample (experimentData_init ! 0) 16 1] =
      experimentData_init[b := (experimentData_init ! b)
        \<lparr>throughputs := throughputs (experimentData_init ! b) @ [16],
         flowTimes := flowTimes (experimentData_init ! b) @ [1]\<rparr>])"
proof -
  let ?f = "example_flow 0x0A020105 2000000 12"
  have h1: "process_flow example_dumbbells (main_expTimings 1) (fst ?f, snd ?f)
     experimentData_init
     = Inr (experimentData_init[0 := add_sample (experimentData_init ! 0) 16 1])"
    using example_process [of "0x0A020105"] by simp
  have v: "real (unat (rxBytes (snd ?f))) * 8
      / (timeLastRxPacket (snd ?f) - timeFirstTxPacket (snd ?f)) / 1000000 = 16"
    "timeLastTxPacket (snd ?f) - timeFirstTxPacket (snd ?f) = 1"
    by (simp_all add: example_flow_def)
  from samples_appended [OF h1 example_changed] h1 show ?thesis
    unfolding v by simp
qed

text \<open>
  C9. If every bucket holds as many throughput samples as completion times before
  \<open>ProcessFlowMonitorResults\<close> (as the ten empty buckets of main do), every bucket does
  so afterwards; and with three dumbbells and ten buckets the run stays inside its
  vectors.
\<close>

theorem sample_lengths_equal:
  assumes "\<forall>d\<in>set expData. length (throughputs d) = length (flowTimes d)"
  shows "(\<forall>expData'. ProcessFlowMonitorResults dumbbells expTimings flows expData = Inr expData'
            \<longrightarrow> (\<forall>d\<in>set expData'. length (throughputs d) = length (flowTimes d))) \<and>
         (3 \<le> length dumbbells \<and> 10 \<le> length expData
            \<longrightarrow> (\<exists>expData'. ProcessFlowMonitorResults dumbbells expTimings flows expData = Inr expData'))"
proof (intro conjI allI impI)
  fix expData'
  assume r: "ProcessFlowMonitorResults dumbbells expTimings flows expData = Inr expData'"
  then obtain xs where xs: "flows_loop dumbbells expTimings flows expData = Inr xs"
    "expData' = map update_stats xs"
    by (auto simp: ProcessFlowMonitorResults_def split: sum.splits)
  from assms have "lengths_agree expData"
    by (simp add: lengths_agree_def list_all_iff)
  then have "lengths_agree xs" using xs(1) by (rule flows_loop_lengths_agree)
  then have "lengths_agree expData'" unfolding xs(2) by (rule lengths_agree_map_update_stats)
  then show "\<forall>d\<in>set expData'. length (throughputs d) = length (flowTimes d)"
    by (simp add: lengths_agree_def list_all_iff)
next
  assume "3 \<le> length dumbbells \<and> 10 \<le> length expData"
  then obtain xs where "flows_loop dumbbells expTimings flows expData = Inr xs"
    using flows_loop_total [of dumbbells expData expTimings flows] by blast
  then show "\<exists>expData'. ProcessFlowMonitorResults dumbbells expTimings flows expData = Inr expData'"
    by (simp add: ProcessFlowMonitorResults_def)
qed

theorem sample_lengths_equal_witness:
  "ProcessFlowMonitorResults example_dumbbells (main_expTimings 1) example_flows
     experimentData_init = Inr example_store \<and>
   list_all (\<lambda>d. length (throughputs d) = length (flowTimes d)) example_store"
proof -
  have h: "\<forall>d\<in>set experimentData_init. length (throughputs d) = length (flowTimes d)"
    by (simp add: experimentData_init_def)
  from sample_lengths_equal [OF h, of example_dumbbells "main_expTimings 1" example_flows]
    example_run
  show ?thesis by (simp add: list_all_iff)
qed

section \<open>The report\<close>

subsection \<open>The number of samples a slot shows\<close>

lemma sint_le_uint': "sint w \<le> uint w"
  by (simp add: sint_uint signed_take_bit_int_less_eq_self_iff order_trans [of "- (2 ^ n)" 0 "uint w" for n])

lemma uint_of_size: "uint (word_of_nat n :: 32 word) = int (n mod 2 ^ 32)"
  by (simp add: uint_nat unat_of_nat)

lemma int_of_size_le: "int_of_size n \<le> int n"
proof -
  have "sint (word_of_nat n :: 32 word) \<le> uint (word_of_nat n :: 32 word)"
    by (rule sint_le_uint')
  also have "\<dots> \<le> int n"
    unfolding uint_of_size by simp
  finally show ?thesis by (simp add: int_of_size_def)
qed

lemma int_of_size_small: 
  assumes "n < 2 ^ 31" shows "int_of_size n = int n"
proof -
  have "n mod 2 ^ 32 = n" using assms by simp
  then have u: "uint (word_of_nat n :: 32 word) = int n" 
    unfolding uint_of_size by simp
  have "int n < 2 ^ 31" using assms
    by (metis of_nat_less_iff of_nat_numeral of_nat_power)
  then have "signed_take_bit 31 (int n) = int n"
    by (simp add: signed_take_bit_int_eq_self)
  then show ?thesis by (simp add: int_of_size_def sint_uint u)
qed

lemma shown_bound: "nat (min 3 (int_of_size (length v))) \<le> length v"
  using int_of_size_le [of "length v"] by simp

lemma length_shown: "length (shown v) \<le> 3"
  by (simp add: shown_def)

lemma shown_prefix: "shown v = take (length (shown v)) v"
  using shown_bound [of v] by (simp add: shown_def min_absorb2)

lemma shown_small: "length v < 2 ^ 31 \<Longrightarrow> shown v = take 3 v"
  by (cases "3 \<le> length v") (simp_all add: shown_def int_of_size_small min_def)

lemma shown_values: "shown [] = []" "shown [a, b, c] = [a, b, c]"
  by (simp_all add: shown_def int_of_size_def)

subsection \<open>The loops of the writer in closed form\<close>

lemma write_samples_eq:
  "0 \<le> i \<Longrightarrow> nat n \<le> length v \<Longrightarrow>
   write_samples fmt v i n out
     = Inr (out @ concat (map (\<lambda>x. fmt x @ '','') (drop (nat i) (take (nat n) v))))"
proof (induction fmt v i n out rule: write_samples.induct)
  case (1 fmt v i n out)
  show ?case
  proof (cases "i < n")
    case True
    with "1.prems" have lt: "nat i < nat n" "nat i < length v" by simp_all
    then have lt': "nat i < length (take (nat n) v)" by simp
    have step: "drop (nat i) (take (nat n) v) = v ! nat i # drop (nat (i + 1)) (take (nat n) v)"
      using Cons_nth_drop_Suc [OF lt', symmetric] lt "1.prems"(1) by (simp add: nat_add_distrib)
    have "write_samples fmt v i n out
        = write_samples fmt v (i + 1) n (out @ fmt (v ! nat i) @ '','')"
      using True lt by (subst write_samples.simps) (simp add: vec_at_def)
    also have "\<dots> = Inr ((out @ fmt (v ! nat i) @ '','')
        @ concat (map (\<lambda>x. fmt x @ '','') (drop (nat (i + 1)) (take (nat n) v))))"
      using True "1.prems" lt by (intro "1.IH" [of "v ! nat i"]) (simp_all add: vec_at_def)
    finally show ?thesis by (simp add: step)
  next
    case False
    then have "nat n \<le> nat i" by simp
    with False show ?thesis
      by (subst write_samples.simps) simp
  qed
qed

lemma write_shown:
  "write_samples fmt v 0 (min 3 (int_of_size (length v))) out
     = Inr (out @ concat (map (\<lambda>x. fmt x @ '','') (shown v)))"
  using write_samples_eq [of 0 "min 3 (int_of_size (length v))" v fmt out] shown_bound [of v]
  by (simp add: shown_def)

lemma throughput_row_eq:
  assumes "expNo * 2 < length expData"
    and "expNo = 0 \<or> expNo = 2 \<or> expNo * 2 + 1 < length expData"
  shows "throughput_row fmt expData expNo out = Inr (out @ th_line fmt expData expNo @ [newline])"
  using assms
  by (auto simp: throughput_row_def Let_def vec_at_def write_shown th_line_def th_slot_def
      slot_columns_def)

lemma fct_row_eq:
  assumes "expNo * 2 < length expData"
    and "expNo = 0 \<or> expNo = 2 \<or> expNo * 2 + 1 < length expData"
  shows "fct_row fmt expData expNo out = Inr (out @ afct_line fmt expData expNo @ [newline])"
  using assms
  by (auto simp: fct_row_def Let_def vec_at_def write_shown afct_line_def afct_slot_def
      slot_columns_def)

lemma rows_loop_eq:
  assumes "\<And>e out. e < 5 \<Longrightarrow> row e out = Inr (out @ line e @ [newline])"
  shows "k \<le> 5 \<Longrightarrow>
    rows_loop row k out = Inr (out @ concat (map (\<lambda>e. line e @ [newline]) [k..<5]))"
proof (induction "5 - k" arbitrary: k out)
  case 0
  then show ?case by (subst rows_loop.simps) simp
next
  case (Suc n)
  then have lt: "k < 5" by simp
  have "rows_loop row k out = rows_loop row (k + 1) (out @ line k @ [newline])"
    using lt by (subst rows_loop.simps) (simp add: assms)
  also have "\<dots> = Inr ((out @ line k @ [newline])
      @ concat (map (\<lambda>e. line e @ [newline]) [k + 1..<5]))"
    using Suc.hyps(2) lt by (intro Suc.hyps(1)) simp_all
  finally show ?case using lt by (simp add: upt_conv_Cons)
qed

lemma WriteResultsCsv_eq:
  assumes "10 \<le> length expData"
  shows "WriteResultsCsv fmt expData
       = Inr (concat (map (\<lambda>l. l @ [newline]) (report_lines fmt expData)))"
proof -
  have th: "throughput_row fmt expData e out = Inr (out @ th_line fmt expData e @ [newline])"
    if "e < 5" for e out
    using that assms by (intro throughput_row_eq) simp_all
  have af: "fct_row fmt expData e out = Inr (out @ afct_line fmt expData e @ [newline])"
    if "e < 5" for e out
    using that assms by (intro fct_row_eq) simp_all
  show ?thesis
    unfolding WriteResultsCsv_def report_lines_def
    by (simp add: rows_loop_eq [of _ "th_line fmt expData", OF th]
        rows_loop_eq [of _ "afct_line fmt expData", OF af] map_concat comp_def del: upt_Suc)
qed

lemma report_lines_nth:
  "length (report_lines fmt expData) = 11"
  "report_lines fmt expData ! 0 = header"
  "e < 5 \<Longrightarrow> report_lines fmt expData ! (1 + e) = th_line fmt expData e"
  "e < 5 \<Longrightarrow> report_lines fmt expData ! (6 + e) = afct_line fmt expData e"
proof -
  show "length (report_lines fmt expData) = 11" "report_lines fmt expData ! 0 = header"
    by (simp_all add: report_lines_def)
  show "report_lines fmt expData ! (1 + e) = th_line fmt expData e" if "e < 5"
    using that by (simp add: report_lines_def nth_append del: upt_Suc)
  show "report_lines fmt expData ! (6 + e) = afct_line fmt expData e" if "e < 5"
  proof -
    have "report_lines fmt expData ! (6 + e)
        = (map (th_line fmt expData) [0..<5] @ map (afct_line fmt expData) [0..<5]) ! (5 + e)"
      by (simp add: report_lines_def del: upt_Suc)
    also have "\<dots> = afct_line fmt expData e"
      using that by (simp add: nth_append del: upt_Suc)
    finally show ?thesis .
  qed
qed

lemma labels: "map (\<lambda>e. show_nat (e + 1)) [0..<5] = [''1'', ''2'', ''3'', ''4'', ''5'']"
  by (simp add: upt_conv_Cons show_nat.simps digit_char_def)

subsection \<open>Lines hold no line feed\<close>

lemma digit_char_not_newline: "digit_char n \<noteq> newline"
proof -
  have "digit_char n \<in> set ''0123456789''"
    unfolding digit_char_def by (rule nth_mem) simp
  then show ?thesis by (auto simp: newline_def)
qed

lemma show_nat_no_newline: "newline \<notin> set (show_nat n)"
proof (induction n rule: show_nat.induct)
  case (1 n)
  then show ?case
    using digit_char_not_newline [of n]
    by (subst show_nat.simps) auto
qed

lemma slot_columns_no_newline:
  assumes "\<And>x. newline \<notin> set (fmt x)" "newline \<notin> set unit"
  shows "newline \<notin> set (slot_columns fmt v mean stddev unit)"
  using assms by (auto simp: slot_columns_def newline_def)

lemma th_line_no_newline:
  assumes "\<And>x. newline \<notin> set (fmt x)"
  shows "newline \<notin> set (th_line fmt expData expNo)"
proof -
  have "newline \<notin> set (th_slot fmt d)" for d
    unfolding th_slot_def using assms by (rule slot_columns_no_newline) (simp add: newline_def)
  then show ?thesis
    using show_nat_no_newline [of "expNo + 1"] by (auto simp: th_line_def newline_def)
qed

lemma afct_line_no_newline:
  assumes "\<And>x. newline \<notin> set (fmt x)"
  shows "newline \<notin> set (afct_line fmt expData expNo)"
proof -
  have "newline \<notin> set (afct_slot fmt d)" for d
    unfolding afct_slot_def using assms by (rule slot_columns_no_newline) (simp add: newline_def)
  then show ?thesis
    using show_nat_no_newline [of "expNo + 1"] by (auto simp: afct_line_def newline_def)
qed

lemma report_lines_no_newline:
  assumes "\<And>x. newline \<notin> set (fmt x)"
  shows "\<forall>l\<in>set (report_lines fmt expData). newline \<notin> set l"
proof -
  have "newline \<notin> set header" by (simp add: header_def newline_def)
  then show ?thesis
    using th_line_no_newline [OF assms] afct_line_no_newline [OF assms]
    by (auto simp: report_lines_def simp del: upt_Suc)
qed

subsection \<open>The report of the example run\<close>

lemma fmt_whole_values: "fmt_whole 80 = ''80''" "fmt_whole 1 = ''1''" "fmt_whole 0 = ''0''"
  by (simp_all add: fmt_whole_def show_nat.simps digit_char_def)

lemma fmt_whole_no_newline: "newline \<notin> set (fmt_whole x)"
  by (simp add: fmt_whole_def show_nat_no_newline)

lemma example_store_nth:
  "example_store ! 0 = \<lparr>throughputs = [80, 80, 80], flowTimes = [1, 1, 1], meanThroughput = 80,
            stddevThroughput = 0, meanFlowTime = 1, stddevFlowTime = 0\<rparr>"
  "0 < b \<Longrightarrow> b < 10 \<Longrightarrow> example_store ! b = bucket0"
  "length example_store = 10"
  by (simp_all add: example_store_def experimentData_init_def bucket0_def)

lemma example_lines:
  "th_line fmt_whole example_store 0 = ''th_1,80,80,80,80,0,Mbps,''"
  "th_line fmt_whole example_store 1 = ''th_2,0,0,Mbps,0,0,Mbps''"
  "th_line fmt_whole example_store 2 = ''th_3,0,0,Mbps,''"
  "th_line fmt_whole example_store 3 = ''th_4,0,0,Mbps,0,0,Mbps''"
  "th_line fmt_whole example_store 4 = ''th_5,0,0,Mbps,0,0,Mbps''"
  "afct_line fmt_whole example_store 0 = ''afct_1,1,1,1,1,0,sec''"
  "afct_line fmt_whole example_store 1 = ''afct_2,0,0,sec,0,0,sec''"
  "afct_line fmt_whole example_store 2 = ''afct_3,0,0,sec''"
  "afct_line fmt_whole example_store 3 = ''afct_4,0,0,sec,0,0,sec''"
  "afct_line fmt_whole example_store 4 = ''afct_5,0,0,sec,0,0,sec''"
  by (simp_all add: th_line_def afct_line_def th_slot_def afct_slot_def slot_columns_def
      example_store_nth bucket0_def shown_values fmt_whole_values show_nat.simps digit_char_def)

subsection \<open>The claims on the report\<close>

text \<open>
  C1, as the specification states it, fails: the three flows of the example run give a
  throughput row that ends with \<open>Mbps\<close>, a comma and the line feed, not with \<open>Mbps\<close> and
  the line feed. The writer sends \<open>",Mbps,"\<close> before it looks at the experiment, and its
  comment announces the comma at the end of a single-flow row.
\<close>

theorem trailing_comma_counterexample:
  "ProcessFlowMonitorResults example_dumbbells (main_expTimings 1) example_flows
     experimentData_init = Inr example_store \<and>
   throughput_row fmt_whole example_store 0 [] = Inr (''th_1,80,80,80,80,0,Mbps,'' @ [newline]) \<and>
   throughput_row fmt_whole example_store 0 [] \<noteq> Inr (''th_1,80,80,80,80,0,Mbps'' @ [newline])"
proof -
  have "throughput_row fmt_whole example_store 0 []
      = Inr ([] @ th_line fmt_whole example_store 0 @ [newline])"
    by (rule throughput_row_eq) (simp_all add: example_store_nth)
  then show ?thesis
    by (simp add: example_run example_lines)
qed

text \<open>
  C1, amended. For the experiments with one slot (index 0 and 2) the throughput row is the
  label, the samples shown, the mean, the deviation and \<open>Mbps\<close>, then one comma and the
  line feed; no column of a second slot is written.
\<close>

theorem single_slot_throughput_row:
  assumes "expNo = 0 \<or> expNo = 2" and "expNo * 2 < length expData"
  shows "throughput_row fmt expData expNo out =
     Inr (out @ ''th_'' @ show_nat (expNo + 1) @ '','' @
          concat (map (\<lambda>x. fmt x @ '','') (shown (throughputs (expData ! (expNo * 2))))) @
          fmt (meanThroughput (expData ! (expNo * 2))) @ '','' @
          fmt (stddevThroughput (expData ! (expNo * 2))) @ '',Mbps,'' @ [newline])"
proof -
  have "throughput_row fmt expData expNo out = Inr (out @ th_line fmt expData expNo @ [newline])"
    using assms by (intro throughput_row_eq) auto
  then show ?thesis
    using assms(1) by (auto simp: th_line_def th_slot_def slot_columns_def)
qed

theorem single_slot_throughput_row_witness:
  "throughput_row fmt_whole example_store 2 ''x'' = Inr (''xth_3,0,0,Mbps,'' @ [newline])"
proof -
  have h1: "(2::nat) = 0 \<or> (2::nat) = 2" by simp
  have h2: "2 * 2 < length example_store" by (simp add: example_store_nth)
  from single_slot_throughput_row [OF h1 h2, of fmt_whole "''x''"] show ?thesis
    by (simp add: example_store_nth bucket0_def shown_values fmt_whole_values show_nat.simps
        digit_char_def)
qed

text \<open>
  C8. In the table of completion times the row of a one-slot experiment (index 0 and 2)
  ends with \<open>sec\<close> and the line feed. The row of any other experiment has a comma after
  that \<open>sec\<close>, then the samples of the second slot, each with its comma, its mean, its
  deviation and a last \<open>sec\<close>.
\<close>

theorem fct_row_layout:
  "((expNo = 0 \<or> expNo = 2) \<and> expNo * 2 < length expData \<longrightarrow>
      fct_row fmt expData expNo out =
        Inr (out @ ''afct_'' @ show_nat (expNo + 1) @ '','' @
             concat (map (\<lambda>x. fmt x @ '','') (shown (flowTimes (expData ! (expNo * 2))))) @
             fmt (meanFlowTime (expData ! (expNo * 2))) @ '','' @
             fmt (stddevFlowTime (expData ! (expNo * 2))) @ '',sec'' @ [newline])) \<and>
   (expNo \<noteq> 0 \<and> expNo \<noteq> 2 \<and> expNo * 2 + 1 < length expData \<longrightarrow>
      fct_row fmt expData expNo out =
        Inr (out @ ''afct_'' @ show_nat (expNo + 1) @ '','' @
             concat (map (\<lambda>x. fmt x @ '','') (shown (flowTimes (expData ! (expNo * 2))))) @
             fmt (meanFlowTime (expData ! (expNo * 2))) @ '','' @
             fmt (stddevFlowTime (expData ! (expNo * 2))) @ '',sec'' @ '','' @
             concat (map (\<lambda>x. fmt x @ '','') (shown (flowTimes (expData ! (expNo * 2 + 1))))) @
             fmt (meanFlowTime (expData ! (expNo * 2 + 1))) @ '','' @
             fmt (stddevFlowTime (expData ! (expNo * 2 + 1))) @ '',sec'' @ [newline]))"
proof (intro conjI impI)
  assume a: "(expNo = 0 \<or> expNo = 2) \<and> expNo * 2 < length expData"
  then have "fct_row fmt expData expNo out = Inr (out @ afct_line fmt expData expNo @ [newline])"
    by (intro fct_row_eq) auto
  with a show "fct_row fmt expData expNo out =
        Inr (out @ ''afct_'' @ show_nat (expNo + 1) @ '','' @
             concat (map (\<lambda>x. fmt x @ '','') (shown (flowTimes (expData ! (expNo * 2))))) @
             fmt (meanFlowTime (expData ! (expNo * 2))) @ '','' @
             fmt (stddevFlowTime (expData ! (expNo * 2))) @ '',sec'' @ [newline])"
    by (auto simp: afct_line_def afct_slot_def slot_columns_def)
next
  assume a: "expNo \<noteq> 0 \<and> expNo \<noteq> 2 \<and> expNo * 2 + 1 < length expData"
  then have "fct_row fmt expData expNo out = Inr (out @ afct_line fmt expData expNo @ [newline])"
    by (intro fct_row_eq) auto
  with a show "fct_row fmt expData expNo out =
        Inr (out @ ''afct_'' @ show_nat (expNo + 1) @ '','' @
             concat (map (\<lambda>x. fmt x @ '','') (shown (flowTimes (expData ! (expNo * 2))))) @
             fmt (meanFlowTime (expData ! (expNo * 2))) @ '','' @
             fmt (stddevFlowTime (expData ! (expNo * 2))) @ '',sec'' @ '','' @
             concat (map (\<lambda>x. fmt x @ '','') (shown (flowTimes (expData ! (expNo * 2 + 1))))) @
             fmt (meanFlowTime (expData ! (expNo * 2 + 1))) @ '','' @
             fmt (stddevFlowTime (expData ! (expNo * 2 + 1))) @ '',sec'' @ [newline])"
    by (simp add: afct_line_def afct_slot_def slot_columns_def)
qed

theorem fct_row_layout_witness:
  "fct_row fmt_whole example_store 0 [] = Inr (''afct_1,1,1,1,1,0,sec'' @ [newline]) \<and>
   fct_row fmt_whole example_store 1 [] = Inr (''afct_2,0,0,sec,0,0,sec'' @ [newline])"
  using fct_row_layout [of 0 example_store fmt_whole "[]"]
    fct_row_layout [of 1 example_store fmt_whole "[]"]
  by (simp add: example_store_nth bucket0_def shown_values fmt_whole_values show_nat.simps
      digit_char_def)

text \<open>
  C10. For a store with its ten buckets the report is eleven lines, each ended by a line
  feed: the header, the rows \<open>th_1\<close> to \<open>th_5\<close>, the rows \<open>afct_1\<close> to \<open>afct_5\<close>.
  Experiments 1 and 3 have the one-slot layout, the others the two-slot layout. A slot
  shows a prefix of its sequence of at most three samples, the first three whenever the
  size fits an \<open>int\<close>. When no double prints with a line feed, no line holds one.
\<close>

theorem report_layout:
  assumes "10 \<le> length expData"
  shows "WriteResultsCsv fmt expData
           = Inr (concat (map (\<lambda>l. l @ [newline]) (report_lines fmt expData))) \<and>
    length (report_lines fmt expData) = 11 \<and>
    report_lines fmt expData ! 0 = header \<and>
    (\<forall>e<5. report_lines fmt expData ! (1 + e) =
       ''th_'' @ show_nat (e + 1) @ '','' @ th_slot fmt (expData ! (e * 2)) @ '','' @
       (if e = 0 \<or> e = 2 then [] else th_slot fmt (expData ! (e * 2 + 1)))) \<and>
    (\<forall>e<5. report_lines fmt expData ! (6 + e) =
       ''afct_'' @ show_nat (e + 1) @ '','' @ afct_slot fmt (expData ! (e * 2)) @
       (if e = 0 \<or> e = 2 then [] else '','' @ afct_slot fmt (expData ! (e * 2 + 1)))) \<and>
    map (\<lambda>e. show_nat (e + 1)) [0..<5] = [''1'', ''2'', ''3'', ''4'', ''5''] \<and>
    (\<forall>d. th_slot fmt d =
       concat (map (\<lambda>x. fmt x @ '','') (shown (throughputs d))) @
       fmt (meanThroughput d) @ '','' @ fmt (stddevThroughput d) @ '',Mbps'') \<and>
    (\<forall>d. afct_slot fmt d =
       concat (map (\<lambda>x. fmt x @ '','') (shown (flowTimes d))) @
       fmt (meanFlowTime d) @ '','' @ fmt (stddevFlowTime d) @ '',sec'') \<and>
    (\<forall>v. length (shown v) \<le> 3 \<and> shown v = take (length (shown v)) v \<and>
         (length v < 2 ^ 31 \<longrightarrow> shown v = take 3 v)) \<and>
    ((\<forall>x. newline \<notin> set (fmt x)) \<longrightarrow> (\<forall>l\<in>set (report_lines fmt expData). newline \<notin> set l))"
proof -
  have a: "WriteResultsCsv fmt expData
           = Inr (concat (map (\<lambda>l. l @ [newline]) (report_lines fmt expData)))"
    using assms by (rule WriteResultsCsv_eq)
  have b: "\<forall>e<5. report_lines fmt expData ! (1 + e) =
       ''th_'' @ show_nat (e + 1) @ '','' @ th_slot fmt (expData ! (e * 2)) @ '','' @
       (if e = 0 \<or> e = 2 then [] else th_slot fmt (expData ! (e * 2 + 1)))"
  proof (intro allI impI)
    fix e :: nat assume "e < 5"
    from report_lines_nth(3) [OF this, of fmt expData]
    show "report_lines fmt expData ! (1 + e) =
       ''th_'' @ show_nat (e + 1) @ '','' @ th_slot fmt (expData ! (e * 2)) @ '','' @
       (if e = 0 \<or> e = 2 then [] else th_slot fmt (expData ! (e * 2 + 1)))"
      unfolding th_line_def .
  qed
  have c: "\<forall>e<5. report_lines fmt expData ! (6 + e) =
       ''afct_'' @ show_nat (e + 1) @ '','' @ afct_slot fmt (expData ! (e * 2)) @
       (if e = 0 \<or> e = 2 then [] else '','' @ afct_slot fmt (expData ! (e * 2 + 1)))"
  proof (intro allI impI)
    fix e :: nat assume "e < 5"
    from report_lines_nth(4) [OF this, of fmt expData]
    show "report_lines fmt expData ! (6 + e) =
       ''afct_'' @ show_nat (e + 1) @ '','' @ afct_slot fmt (expData ! (e * 2)) @
       (if e = 0 \<or> e = 2 then [] else '','' @ afct_slot fmt (expData ! (e * 2 + 1)))"
      unfolding afct_line_def .
  qed
  have d: "\<forall>d. th_slot fmt d =
       concat (map (\<lambda>x. fmt x @ '','') (shown (throughputs d))) @
       fmt (meanThroughput d) @ '','' @ fmt (stddevThroughput d) @ '',Mbps''"
    by (simp add: th_slot_def slot_columns_def)
  have e: "\<forall>d. afct_slot fmt d =
       concat (map (\<lambda>x. fmt x @ '','') (shown (flowTimes d))) @
       fmt (meanFlowTime d) @ '','' @ fmt (stddevFlowTime d) @ '',sec''"
    by (simp add: afct_slot_def slot_columns_def)
  have f: "\<forall>v. length (shown v) \<le> 3 \<and> shown v = take (length (shown v)) v \<and>
         (length v < 2 ^ 31 \<longrightarrow> shown v = take 3 v)"
    using length_shown shown_prefix shown_small by blast
  have g: "(\<forall>x. newline \<notin> set (fmt x)) \<longrightarrow> (\<forall>l\<in>set (report_lines fmt expData). newline \<notin> set l)"
    using report_lines_no_newline [of fmt expData] by blast
  from a b c d e f g report_lines_nth(1,2) [of fmt expData] labels show ?thesis
    by blast
qed

theorem report_layout_witness:
  "WriteResultsCsv fmt_whole example_store =
     Inr (concat (map (\<lambda>l. l @ [newline])
       [header,
        ''th_1,80,80,80,80,0,Mbps,'',
        ''th_2,0,0,Mbps,0,0,Mbps'',
        ''th_3,0,0,Mbps,'',
        ''th_4,0,0,Mbps,0,0,Mbps'',
        ''th_5,0,0,Mbps,0,0,Mbps'',
        ''afct_1,1,1,1,1,0,sec'',
        ''afct_2,0,0,sec,0,0,sec'',
        ''afct_3,0,0,sec'',
        ''afct_4,0,0,sec,0,0,sec'',
        ''afct_5,0,0,sec,0,0,sec''])) \<and>
   list_all (\<lambda>l. newline \<notin> set l) (report_lines fmt_whole example_store) \<and>
   report_lines fmt_whole example_store ! (1 + 0) = ''th_1,80,80,80,80,0,Mbps,'' \<and>
   report_lines fmt_whole example_store ! (6 + 1) = ''afct_2,0,0,sec,0,0,sec'' \<and>
   shown [80, 80, 80, 80] = [80, 80, 80]"
proof -
  have h: "10 \<le> length example_store" by (simp add: example_store_nth)
  have l: "report_lines fmt_whole example_store =
       [header,
        ''th_1,80,80,80,80,0,Mbps,'',
        ''th_2,0,0,Mbps,0,0,Mbps'',
        ''th_3,0,0,Mbps,'',
        ''th_4,0,0,Mbps,0,0,Mbps'',
        ''th_5,0,0,Mbps,0,0,Mbps'',
        ''afct_1,1,1,1,1,0,sec'',
        ''afct_2,0,0,sec,0,0,sec'',
        ''afct_3,0,0,sec'',
        ''afct_4,0,0,sec,0,0,sec'',
        ''afct_5,0,0,sec,0,0,sec'']"
  proof -
    have u: "[0..<5] = [0, 1, 2, 3, 4::nat]" by (simp add: upt_conv_Cons)
    show ?thesis
      by (simp only: report_lines_def u list.map example_lines append.simps)
  qed
  note r = report_layout [OF h, of fmt_whole]
  from r have a: "WriteResultsCsv fmt_whole example_store
       = Inr (concat (map (\<lambda>l. l @ [newline]) (report_lines fmt_whole example_store)))"
    by blast
  from r fmt_whole_no_newline
  have b: "\<forall>l\<in>set (report_lines fmt_whole example_store). newline \<notin> set l"
    by blast
  from r have "length [80, 80, 80, 80 :: real] < 2 ^ 31 \<longrightarrow>
      shown [80, 80, 80, 80] = take 3 [80, 80, 80, 80]"
    by blast
  then have c: "shown [80, 80, 80, 80] = [80, 80, 80]" by simp
  from a b c show ?thesis
    unfolding list_all_iff l by simp
qed

end
